theory Spec2Isabelle
  imports Main "HOL-Library.Word"
begin

unbundle bit_operations_syntax

section \<open>Data model of \<open>hd44780.go\<close>\<close>

text \<open>
  Go's \<open>byte\<close> is an unsigned 8-bit integer.  The named types \<open>entryMode\<close>,
  \<open>displayMode\<close>, \<open>functionMode\<close> and \<open>registerSelect\<close> are all declared as
  \<open>byte\<close>.  \<open>BacklightPolarity\<close> is declared as \<open>bool\<close>.  Ranging over a Go string
  yields runes (32-bit code points); the driver truncates each with \<open>byte(c)\<close>.
\<close>

type_synonym byte = "8 word"
type_synonym entryMode = byte
type_synonym displayMode = byte
type_synonym functionMode = byte
type_synonym registerSelect = byte
type_synonym rune = "32 word"
type_synonym BacklightPolarity = bool

definition Negative :: BacklightPolarity where "Negative = False"
definition Positive :: BacklightPolarity where "Positive = True"

subsection \<open>Constants\<close>

definition lcdClearDisplay :: byte where "lcdClearDisplay = 0x01"
definition lcdReturnHome :: byte where "lcdReturnHome = 0x02"
definition lcdCursorShift :: byte where "lcdCursorShift = 0x10"
definition lcdSetCGRamAddr :: byte where "lcdSetCGRamAddr = 0x40"
definition lcdSetDDRamAddr :: byte where "lcdSetDDRamAddr = 0x80"

definition lcdSetEntryMode :: entryMode where "lcdSetEntryMode = 0x04"
definition lcdEntryDecrement :: entryMode where "lcdEntryDecrement = 0x00"
definition lcdEntryIncrement :: entryMode where "lcdEntryIncrement = 0x02"
definition lcdEntryShiftOff :: entryMode where "lcdEntryShiftOff = 0x00"
definition lcdEntryShiftOn :: entryMode where "lcdEntryShiftOn = 0x01"

definition lcdDisplayOn :: displayMode where "lcdDisplayOn = 0x04"
definition lcdDisplayOff :: displayMode where "lcdDisplayOff = 0x00"
definition lcdBlinkCursorOn :: displayMode where "lcdBlinkCursorOn = 0x01"
definition lcdBlinkCursorOff :: displayMode where "lcdBlinkCursorOff = 0x00"
definition lcdUnderlineCursorOn :: displayMode where "lcdUnderlineCursorOn = 0x02"
definition lcdUnderlineCursorOff :: displayMode where "lcdUnderlineCursorOff = 0x00"
definition lcdSetDisplayMode :: displayMode where "lcdSetDisplayMode = 0x08"

definition lcd1Line :: functionMode where "lcd1Line = 0x00"
definition lcd2Line :: functionMode where "lcd2Line = 0x08"
definition lcd4BitMode :: functionMode where "lcd4BitMode = 0x00"
definition lcd8BitMode :: functionMode where "lcd8BitMode = 0x10"
definition lcd5x8Dots :: functionMode where "lcd5x8Dots = 0x00"
definition lcd5x10Dots :: functionMode where "lcd5x10Dots = 0x04"
definition lcdSetFunctionMode :: functionMode where "lcdSetFunctionMode = 0x20"

definition lcdBacklightOff :: byte where "lcdBacklightOff = 0x00"
definition lcdBacklightOn :: byte where "lcdBacklightOn = 0x08"

definition registerSelectHigh :: registerSelect where "registerSelectHigh = 0x1"
definition registerSelectLow :: registerSelect where "registerSelectLow = 0x0"

subsection \<open>The pin map\<close>

record I2CPinMap =
  RS :: byte
  RW :: byte
  EN :: byte
  D4 :: byte
  D5 :: byte
  D6 :: byte
  D7 :: byte
  Backlight :: byte
  BLPolarity :: BacklightPolarity

definition MJKDZPinMap :: I2CPinMap where
  "MJKDZPinMap = \<lparr>RS = 6, RW = 5, EN = 4, D4 = 0, D5 = 1, D6 = 2, D7 = 3,
     Backlight = 7, BLPolarity = Negative\<rparr>"

definition PCF8574PinMap :: I2CPinMap where
  "PCF8574PinMap = \<lparr>RS = 0, RW = 1, EN = 2, D4 = 4, D5 = 5, D6 = 6, D7 = 7,
     Backlight = 3, BLPolarity = Positive\<rparr>"

subsection \<open>The transport\<close>

text \<open>
  The driver uses one capability of the external I2C handle: \<open>WriteByte\<close>, which
  returns an error or \<open>nil\<close>.  The handle is modelled by the list of bytes handed to
  \<open>WriteByte\<close> so far, oldest first (the byte of a failing call included), and by the
  answer the transport gives to its \<open>n\<close>-th call (\<open>None\<close> is Go's \<open>nil\<close>).  The
  delays (\<open>time.Sleep\<close>) have no effect on values and are left out.
\<close>

datatype error = TransportError nat

record i2c =
  log :: "byte list"
  fault :: "nat \<Rightarrow> error option"

definition WriteByte :: "i2c \<Rightarrow> byte \<Rightarrow> error option \<times> i2c" where
  "WriteByte bus b = (fault bus (length (log bus)), bus\<lparr>log := log bus @ [b]\<rparr>)"

subsection \<open>The connection\<close>

record Hd44780I2c =
  I2C :: i2c
  PinMap :: I2CPinMap
  backlight :: bool
  eMode :: entryMode
  dMode :: displayMode
  fMode :: functionMode

type_synonym ModeSetter = "Hd44780I2c \<Rightarrow> Hd44780I2c"

section \<open>Operations\<close>

subsection \<open>\<open>write\<close> (here \<open>lcd_write\<close>): two frames, three bus writes each\<close>

text \<open>
  Two names differ from the source: \<open>write\<close> is a keyword of Isabelle, so the method is
  called \<open>lcd_write\<close>, and the receiver \<open>hd\<close> is written \<open>lcd\<close>, since \<open>hd\<close> is the
  head of a list in HOL.  A method that mutates its receiver and returns an \<open>error\<close>
  becomes a function that returns the error (\<open>None\<close> for \<open>nil\<close>) together with the
  connection as the call leaves it, also when the call fails.
\<close>

text \<open>
  Go's \<open>x << n\<close> on a \<open>byte\<close> with a \<open>byte\<close> shift count: bits shifted past bit 7
  are lost, and a count of 8 or more gives 0.  An untyped constant \<open>0x01\<close> shifted by a
  variable takes the type of its context, here \<open>byte\<close>.
\<close>

definition shl :: "byte \<Rightarrow> byte \<Rightarrow> byte" where
  "shl x n = push_bit (unat n) x"

definition instructionHigh :: "I2CPinMap \<Rightarrow> byte \<Rightarrow> byte" where
  "instructionHigh pm data =
     0x00 OR shl (drop_bit 4 data AND 0x01) (D4 pm)
          OR shl (drop_bit 5 data AND 0x01) (D5 pm)
          OR shl (drop_bit 6 data AND 0x01) (D6 pm)
          OR shl (drop_bit 7 data AND 0x01) (D7 pm)"

definition instructionLow :: "I2CPinMap \<Rightarrow> byte \<Rightarrow> byte" where
  "instructionLow pm data =
     0x00 OR shl (drop_bit 0 data AND 0x01) (D4 pm)
          OR shl (drop_bit 1 data AND 0x01) (D5 pm)
          OR shl (drop_bit 2 data AND 0x01) (D6 pm)
          OR shl (drop_bit 3 data AND 0x01) (D7 pm)"

text \<open>The body of the loop over \<open>instructions\<close>, up to the slice \<open>bytes\<close>.\<close>

definition frame :: "Hd44780I2c \<Rightarrow> registerSelect \<Rightarrow> byte \<Rightarrow> byte" where
  "frame lcd rs ins =
     (let ins1 = ins OR shl rs (RS (PinMap lcd))
      in if backlight lcd = BLPolarity (PinMap lcd)
         then ins1 OR shl 0x01 (Backlight (PinMap lcd))
         else ins1)"

definition strobe :: "I2CPinMap \<Rightarrow> byte \<Rightarrow> byte list" where
  "strobe pm ins = [ins, ins OR shl 0x01 (EN pm), ins]"

text \<open>The inner loop \<open>for _, b := range bytes\<close>: it returns at the first error.\<close>

fun write_bytes :: "i2c \<Rightarrow> byte list \<Rightarrow> error option \<times> i2c" where
  "write_bytes bus [] = (None, bus)"
| "write_bytes bus (b # bs) =
     (case WriteByte bus b of
        (Some err, bus') \<Rightarrow> (Some err, bus')
      | (None, bus') \<Rightarrow> write_bytes bus' bs)"

text \<open>The outer loop \<open>for _, ins := range instructions\<close>.\<close>

fun write_instructions ::
  "Hd44780I2c \<Rightarrow> registerSelect \<Rightarrow> byte list \<Rightarrow> error option \<times> Hd44780I2c" where
  "write_instructions lcd rs [] = (None, lcd)"
| "write_instructions lcd rs (ins # rest) =
     (case write_bytes (I2C lcd) (strobe (PinMap lcd) (frame lcd rs ins)) of
        (Some err, bus') \<Rightarrow> (Some err, lcd\<lparr>I2C := bus'\<rparr>)
      | (None, bus') \<Rightarrow> write_instructions (lcd\<lparr>I2C := bus'\<rparr>) rs rest)"

definition lcd_write :: "Hd44780I2c \<Rightarrow> byte \<Rightarrow> registerSelect \<Rightarrow> error option \<times> Hd44780I2c" where
  "lcd_write lcd data rs =
     write_instructions lcd rs [instructionHigh (PinMap lcd) data, instructionLow (PinMap lcd) data]"

definition WriteChar :: "Hd44780I2c \<Rightarrow> byte \<Rightarrow> error option \<times> Hd44780I2c" where
  "WriteChar lcd v = lcd_write lcd v registerSelectHigh"

definition WriteInstruction :: "Hd44780I2c \<Rightarrow> byte \<Rightarrow> error option \<times> Hd44780I2c" where
  "WriteInstruction lcd v = lcd_write lcd v registerSelectLow"

subsection \<open>Mode registers\<close>

definition EntryDecrement :: ModeSetter where
  "EntryDecrement lcd = lcd\<lparr>eMode := eMode lcd AND NOT lcdEntryIncrement\<rparr>"
definition EntryIncrement :: ModeSetter where
  "EntryIncrement lcd = lcd\<lparr>eMode := eMode lcd OR lcdEntryIncrement\<rparr>"
definition EntryShiftOff :: ModeSetter where
  "EntryShiftOff lcd = lcd\<lparr>eMode := eMode lcd AND NOT lcdEntryShiftOn\<rparr>"
definition EntryShiftOn :: ModeSetter where
  "EntryShiftOn lcd = lcd\<lparr>eMode := eMode lcd OR lcdEntryShiftOn\<rparr>"
definition DisplayOff :: ModeSetter where
  "DisplayOff lcd = lcd\<lparr>dMode := dMode lcd AND NOT lcdDisplayOn\<rparr>"
definition DisplayOn :: ModeSetter where
  "DisplayOn lcd = lcd\<lparr>dMode := dMode lcd OR lcdDisplayOn\<rparr>"
definition UnderlineCursorOff :: ModeSetter where
  "UnderlineCursorOff lcd = lcd\<lparr>dMode := dMode lcd AND NOT lcdUnderlineCursorOn\<rparr>"
definition UnderlineCursorOn :: ModeSetter where
  "UnderlineCursorOn lcd = lcd\<lparr>dMode := dMode lcd OR lcdUnderlineCursorOn\<rparr>"
definition BlinkCursorOff :: ModeSetter where
  "BlinkCursorOff lcd = lcd\<lparr>dMode := dMode lcd AND NOT lcdBlinkCursorOn\<rparr>"
definition BlinkCursorOn :: ModeSetter where
  "BlinkCursorOn lcd = lcd\<lparr>dMode := dMode lcd OR lcdBlinkCursorOn\<rparr>"
definition FourBitMode :: ModeSetter where
  "FourBitMode lcd = lcd\<lparr>fMode := fMode lcd AND NOT lcd8BitMode\<rparr>"
definition EightBitMode :: ModeSetter where
  "EightBitMode lcd = lcd\<lparr>fMode := fMode lcd OR lcd8BitMode\<rparr>"
definition OneLine :: ModeSetter where
  "OneLine lcd = lcd\<lparr>fMode := fMode lcd AND NOT lcd2Line\<rparr>"
definition TwoLine :: ModeSetter where
  "TwoLine lcd = lcd\<lparr>fMode := fMode lcd OR lcd2Line\<rparr>"
definition Dots5x8 :: ModeSetter where
  "Dots5x8 lcd = lcd\<lparr>fMode := fMode lcd AND NOT lcd5x10Dots\<rparr>"
definition Dots5x10 :: ModeSetter where
  "Dots5x10 lcd = lcd\<lparr>fMode := fMode lcd OR lcd5x10Dots\<rparr>"

definition DefaultModes :: "ModeSetter list" where
  "DefaultModes = [FourBitMode, TwoLine, Dots5x8, EntryIncrement, EntryShiftOff,
     DisplayOn, UnderlineCursorOff, BlinkCursorOff]"

definition setEntryMode :: "Hd44780I2c \<Rightarrow> error option \<times> Hd44780I2c" where
  "setEntryMode lcd = WriteInstruction lcd (lcdSetEntryMode OR eMode lcd)"

definition setDisplayMode :: "Hd44780I2c \<Rightarrow> error option \<times> Hd44780I2c" where
  "setDisplayMode lcd = WriteInstruction lcd (lcdSetDisplayMode OR dMode lcd)"

definition setFunctionMode :: "Hd44780I2c \<Rightarrow> error option \<times> Hd44780I2c" where
  "setFunctionMode lcd = WriteInstruction lcd (lcdSetFunctionMode OR fMode lcd)"

text \<open>The loop over the slice \<open>functions\<close> of \<open>SetMode\<close>: it returns at the first error.\<close>

fun run_functions ::
  "Hd44780I2c \<Rightarrow> (Hd44780I2c \<Rightarrow> error option \<times> Hd44780I2c) list \<Rightarrow> error option \<times> Hd44780I2c" where
  "run_functions lcd [] = (None, lcd)"
| "run_functions lcd (f # fs) =
     (case f lcd of
        (Some err, lcd') \<Rightarrow> (Some err, lcd')
      | (None, lcd') \<Rightarrow> run_functions lcd' fs)"

definition SetMode :: "Hd44780I2c \<Rightarrow> ModeSetter list \<Rightarrow> error option \<times> Hd44780I2c" where
  "SetMode lcd modes =
     run_functions (foldl (\<lambda>h m. m h) lcd modes) [setEntryMode, setDisplayMode, setFunctionMode]"

definition EntryIncrementEnabled :: "Hd44780I2c \<Rightarrow> bool" where
  "EntryIncrementEnabled lcd = (eMode lcd AND lcdEntryIncrement > 0)"
definition EntryShiftEnabled :: "Hd44780I2c \<Rightarrow> bool" where
  "EntryShiftEnabled lcd = (eMode lcd AND lcdEntryShiftOn > 0)"
definition DisplayEnabled :: "Hd44780I2c \<Rightarrow> bool" where
  "DisplayEnabled lcd = (dMode lcd AND lcdDisplayOn > 0)"
definition CursorEnabled :: "Hd44780I2c \<Rightarrow> bool" where
  "CursorEnabled lcd = (dMode lcd AND lcdUnderlineCursorOn > 0)"
definition BlinkEnabled :: "Hd44780I2c \<Rightarrow> bool" where
  "BlinkEnabled lcd = (dMode lcd AND lcdBlinkCursorOn > 0)"
definition EightBitModeEnabled :: "Hd44780I2c \<Rightarrow> bool" where
  "EightBitModeEnabled lcd = (fMode lcd AND lcd8BitMode > 0)"
definition TwoLineEnabled :: "Hd44780I2c \<Rightarrow> bool" where
  "TwoLineEnabled lcd = (fMode lcd AND lcd2Line > 0)"

subsection \<open>Clear, initialization and the constructor\<close>

definition Clear :: "Hd44780I2c \<Rightarrow> error option \<times> Hd44780I2c" where
  "Clear lcd =
     (case WriteInstruction lcd lcdClearDisplay of
        (Some err, lcd') \<Rightarrow> (Some err, lcd')
      | (None, lcd') \<Rightarrow> SetMode lcd' [])"

definition lcdInit :: "Hd44780I2c \<Rightarrow> error option \<times> Hd44780I2c" where
  "lcdInit lcd =
     (case WriteInstruction lcd 0x03 of
        (Some err, lcd1) \<Rightarrow> (Some err, lcd1)
      | (None, lcd1) \<Rightarrow>
     (case WriteInstruction lcd1 0x03 of
        (Some err, lcd2) \<Rightarrow> (Some err, lcd2)
      | (None, lcd2) \<Rightarrow>
     (case WriteInstruction lcd2 0x03 of
        (Some err, lcd3) \<Rightarrow> (Some err, lcd3)
      | (None, lcd3) \<Rightarrow>
     (case WriteInstruction lcd3 0x02 of
        (Some err, lcd4) \<Rightarrow> (Some err, lcd4)
      | (None, lcd4) \<Rightarrow> Clear lcd4))))"

text \<open>
  The constructor returns \<open>(nil, err)\<close> or \<open>(c, nil)\<close>.  The transport is shared with
  the caller through a pointer, so the failure branch carries the transport as the
  failed run left it.
\<close>

definition NewHd44780I2c ::
  "i2c \<Rightarrow> I2CPinMap \<Rightarrow> ModeSetter list \<Rightarrow> (error \<times> i2c) + Hd44780I2c" where
  "NewHd44780I2c bus pinMap modes =
     (let c = \<lparr>I2C = bus, PinMap = pinMap, backlight = True,
                eMode = 0x00, dMode = 0x00, fMode = 0x00\<rparr>
      in case lcdInit c of
           (Some err, c1) \<Rightarrow> Inl (err, I2C c1)
         | (None, c1) \<Rightarrow>
             (case SetMode c1 (DefaultModes @ modes) of
                (Some err, c2) \<Rightarrow> Inl (err, I2C c2)
              | (None, c2) \<Rightarrow> Inr c2))"

subsection \<open>Display and backlight\<close>

text \<open>The loop \<open>for _, c := range str\<close> of \<open>DisplayString\<close>.\<close>

fun write_chars :: "Hd44780I2c \<Rightarrow> rune list \<Rightarrow> error option \<times> Hd44780I2c" where
  "write_chars lcd [] = (None, lcd)"
| "write_chars lcd (c # cs) =
     (case WriteChar lcd (ucast c) of
        (Some err, lcd') \<Rightarrow> (Some err, lcd')
      | (None, lcd') \<Rightarrow> write_chars lcd' cs)"

text \<open>
  The \<open>switch\<close> on \<open>line\<close> has the cases 1 to 4 and no default: for any other value
  \<open>address\<close> keeps its zero value.
\<close>

definition DisplayString ::
  "Hd44780I2c \<Rightarrow> rune list \<Rightarrow> byte \<Rightarrow> byte \<Rightarrow> error option \<times> Hd44780I2c" where
  "DisplayString lcd str line pos =
     (let address =
        (if line = 1 then pos
         else if line = 2 then 0x40 + pos
         else if line = 3 then 0x10 + pos
         else if line = 4 then 0x54 + pos
         else 0)
      in case WriteInstruction lcd (lcdSetDDRamAddr + address) of
           (Some err, lcd') \<Rightarrow> (Some err, lcd')
         | (None, lcd') \<Rightarrow> write_chars lcd' str)"

definition BacklightOn :: "Hd44780I2c \<Rightarrow> error option \<times> Hd44780I2c" where
  "BacklightOn lcd =
     (let lcd1 = lcd\<lparr>backlight := True\<rparr>;
          (err, bus') = WriteByte (I2C lcd1) lcdBacklightOn
      in (err, lcd1\<lparr>I2C := bus'\<rparr>))"

definition BacklightOff :: "Hd44780I2c \<Rightarrow> error option \<times> Hd44780I2c" where
  "BacklightOff lcd =
     (let lcd1 = lcd\<lparr>backlight := False\<rparr>;
          (err, bus') = WriteByte (I2C lcd1) lcdBacklightOff
      in (err, lcd1\<lparr>I2C := bus'\<rparr>))"

section \<open>Specification-level notions\<close>

text \<open>
  The definitions of this section are not functions of the driver.  They name what the
  statements below talk about.
\<close>

text \<open>
  The invariant the specification puts on a pin map: the eight signals sit on pairwise
  distinct bit positions of one byte.  The driver never checks it.
\<close>

definition valid_PinMap :: "I2CPinMap \<Rightarrow> bool" where
  "valid_PinMap pm \<longleftrightarrow>
     distinct [RS pm, RW pm, EN pm, D4 pm, D5 pm, D6 pm, D7 pm, Backlight pm]
     \<and> list_all (\<lambda>p. p < 8) [RS pm, RW pm, EN pm, D4 pm, D5 pm, D6 pm, D7 pm, Backlight pm]"

definition assigned :: "I2CPinMap \<Rightarrow> nat set" where
  "assigned pm = set (map unat [RS pm, RW pm, EN pm, D4 pm, D5 pm, D6 pm, D7 pm, Backlight pm])"

text \<open>
  What the controller reads on its four data lines when the expander outputs the byte
  \<open>f\<close>: line D4 is bit 0 of the nibble, line D7 is bit 3.
\<close>

definition data_nibble :: "I2CPinMap \<Rightarrow> byte \<Rightarrow> byte" where
  "data_nibble pm f =
     (drop_bit (unat (D4 pm)) f AND 1)
     OR push_bit 1 (drop_bit (unat (D5 pm)) f AND 1)
     OR push_bit 2 (drop_bit (unat (D6 pm)) f AND 1)
     OR push_bit 3 (drop_bit (unat (D7 pm)) f AND 1)"

text \<open>
  The six bytes that \<open>write\<close> hands to the transport, in order, when no call fails:
  the slice \<open>bytes\<close> of the first iteration followed by that of the second.
\<close>

definition write_trace :: "Hd44780I2c \<Rightarrow> byte \<Rightarrow> registerSelect \<Rightarrow> byte list" where
  "write_trace lcd data rs =
     strobe (PinMap lcd) (frame lcd rs (instructionHigh (PinMap lcd) data))
     @ strobe (PinMap lcd) (frame lcd rs (instructionLow (PinMap lcd) data))"

text \<open>
  Handing a list of bytes to the transport of a connection, one call after the other,
  until a call fails.
\<close>

definition send :: "Hd44780I2c \<Rightarrow> byte list \<Rightarrow> error option \<times> Hd44780I2c" where
  "send lcd bs = (case write_bytes (I2C lcd) bs of (err, bus') \<Rightarrow> (err, lcd\<lparr>I2C := bus'\<rparr>))"

text \<open>The bytes of the three mode instructions, of the initialization and of a string.\<close>

definition mode_trace :: "Hd44780I2c \<Rightarrow> byte list" where
  "mode_trace lcd =
     write_trace lcd (lcdSetEntryMode OR eMode lcd) registerSelectLow
     @ write_trace lcd (lcdSetDisplayMode OR dMode lcd) registerSelectLow
     @ write_trace lcd (lcdSetFunctionMode OR fMode lcd) registerSelectLow"

definition init_trace :: "Hd44780I2c \<Rightarrow> byte list" where
  "init_trace lcd =
     write_trace lcd 0x03 registerSelectLow
     @ write_trace lcd 0x03 registerSelectLow
     @ write_trace lcd 0x03 registerSelectLow
     @ write_trace lcd 0x02 registerSelectLow
     @ write_trace lcd lcdClearDisplay registerSelectLow
     @ mode_trace lcd"

definition chars_trace :: "Hd44780I2c \<Rightarrow> rune list \<Rightarrow> byte list" where
  "chars_trace lcd str = concat (map (\<lambda>c. write_trace lcd (ucast c) registerSelectHigh) str)"

text \<open>The sixteen mode setters the driver exports.\<close>

definition ModeSetters :: "ModeSetter list" where
  "ModeSetters = [EntryDecrement, EntryIncrement, EntryShiftOff, EntryShiftOn,
     DisplayOff, DisplayOn, UnderlineCursorOff, UnderlineCursorOn, BlinkCursorOff,
     BlinkCursorOn, FourBitMode, EightBitMode, OneLine, TwoLine, Dots5x8, Dots5x10]"

text \<open>
  Concrete inputs: a transport that never fails, one whose \<open>k\<close>-th call fails, a
  connection on the PCF8574 preset with nothing sent yet, a pin map in which D4 and
  the backlight share bit position 2, and a connection holding the default modes.
\<close>

definition never_fails :: "nat \<Rightarrow> error option" where
  "never_fails n = None"

definition fails_at :: "nat \<Rightarrow> error \<Rightarrow> nat \<Rightarrow> error option" where
  "fails_at k e n = (if n = k then Some e else None)"

definition fresh_bus :: i2c where
  "fresh_bus = \<lparr>log = [], fault = never_fails\<rparr>"

definition lcd0 :: Hd44780I2c where
  "lcd0 = \<lparr>I2C = fresh_bus, PinMap = PCF8574PinMap, backlight = True,
            eMode = 0x00, dMode = 0x00, fMode = 0x00\<rparr>"

definition shared_PinMap :: I2CPinMap where
  "shared_PinMap = \<lparr>RS = 0, RW = 1, EN = 3, D4 = 2, D5 = 5, D6 = 6, D7 = 7,
     Backlight = 2, BLPolarity = Positive\<rparr>"

definition faulty_bus :: i2c where
  "faulty_bus = \<lparr>log = [], fault = fails_at 4 (TransportError 5)\<rparr>"

definition ready_lcd :: Hd44780I2c where
  "ready_lcd = \<lparr>I2C = fresh_bus, PinMap = PCF8574PinMap, backlight = True,
            eMode = 0x02, dMode = 0x04, fMode = 0x08\<rparr>"

section \<open>Auxiliary facts\<close>

lemmas lcd_consts =
  lcdClearDisplay_def lcdReturnHome_def lcdCursorShift_def lcdSetCGRamAddr_def
  lcdSetDDRamAddr_def lcdSetEntryMode_def lcdEntryDecrement_def lcdEntryIncrement_def
  lcdEntryShiftOff_def lcdEntryShiftOn_def lcdDisplayOn_def lcdDisplayOff_def
  lcdBlinkCursorOn_def lcdBlinkCursorOff_def lcdUnderlineCursorOn_def
  lcdUnderlineCursorOff_def lcdSetDisplayMode_def lcd1Line_def lcd2Line_def
  lcd4BitMode_def lcd8BitMode_def lcd5x8Dots_def lcd5x10Dots_def lcdSetFunctionMode_def
  lcdBacklightOff_def lcdBacklightOn_def registerSelectHigh_def registerSelectLow_def

lemmas ModeSetter_defs =
  EntryDecrement_def EntryIncrement_def EntryShiftOff_def EntryShiftOn_def
  DisplayOff_def DisplayOn_def UnderlineCursorOff_def UnderlineCursorOn_def
  BlinkCursorOff_def BlinkCursorOn_def FourBitMode_def EightBitMode_def
  OneLine_def TwoLine_def Dots5x8_def Dots5x10_def

lemma bit_shl: "bit (shl x n) k \<longleftrightarrow> unat n \<le> k \<and> k < 8 \<and> bit x (k - unat n)"
  by (auto simp add: shl_def bit_simps)

lemma bit_shl_flag: "bit (shl (drop_bit j data AND 1) n) k \<longleftrightarrow> k = unat n \<and> k < 8 \<and> bit data j"
  by (auto simp add: bit_shl bit_simps)

lemma bit_shl_1: "bit (shl 1 n) k \<longleftrightarrow> k = unat n \<and> k < 8"
  by (auto simp add: bit_shl bit_simps)

lemma bit_instructionHigh:
  "bit (instructionHigh pm data) k \<longleftrightarrow> k < 8 \<and>
     (k = unat (D4 pm) \<and> bit data 4 \<or> k = unat (D5 pm) \<and> bit data 5
      \<or> k = unat (D6 pm) \<and> bit data 6 \<or> k = unat (D7 pm) \<and> bit data 7)"
  by (auto simp add: instructionHigh_def bit_or_iff bit_shl_flag)

lemma bit_instructionLow:
  "bit (instructionLow pm data) k \<longleftrightarrow> k < 8 \<and>
     (k = unat (D4 pm) \<and> bit data 0 \<or> k = unat (D5 pm) \<and> bit data 1
      \<or> k = unat (D6 pm) \<and> bit data 2 \<or> k = unat (D7 pm) \<and> bit data 3)"
  using bit_shl_flag [of 0 data] 
  by (auto simp add: instructionLow_def bit_or_iff bit_shl_flag)

lemma bit_frame:
  "bit (frame lcd rs ins) k \<longleftrightarrow>
     bit ins k \<or> bit (shl rs (RS (PinMap lcd))) k
     \<or> (backlight lcd = BLPolarity (PinMap lcd) \<and> k = unat (Backlight (PinMap lcd)) \<and> k < 8)"
  by (auto simp add: frame_def Let_def bit_or_iff bit_shl_1)

lemma bit_flag: "bit (drop_bit n f AND (1::byte)) k \<longleftrightarrow> k = 0 \<and> bit f n"
  by (auto simp add: bit_and_iff bit_drop_bit_eq bit_1_iff)

lemma bit_push_flag:
  "j < 8 \<Longrightarrow> bit (push_bit j (drop_bit n f AND (1::byte))) k \<longleftrightarrow> k = j \<and> bit f n"
  unfolding bit_push_bit_iff bit_flag by (auto simp add: possible_bit_word)

lemma bit_data_nibble:
  "bit (data_nibble pm f) k \<longleftrightarrow>
     (k = 0 \<and> bit f (unat (D4 pm))) \<or> (k = 1 \<and> bit f (unat (D5 pm)))
     \<or> (k = 2 \<and> bit f (unat (D6 pm))) \<or> (k = 3 \<and> bit f (unat (D7 pm)))"
proof -
  have p1: "bit (push_bit 1 (drop_bit n f AND (1::byte))) k \<longleftrightarrow> k = 1 \<and> bit f n" for n
    by (rule bit_push_flag) simp
  have p2: "bit (push_bit 2 (drop_bit n f AND (1::byte))) k \<longleftrightarrow> k = 2 \<and> bit f n" for n
    by (rule bit_push_flag) simp
  have p3: "bit (push_bit 3 (drop_bit n f AND (1::byte))) k \<longleftrightarrow> k = 3 \<and> bit f n" for n
    by (rule bit_push_flag) simp
  show ?thesis
    unfolding data_nibble_def bit_or_iff p1 p2 p3 bit_flag by blast
qed

lemma bit_shl_rs:
  "rs = registerSelectLow \<or> rs = registerSelectHigh \<Longrightarrow>
   bit (shl rs n) k \<longleftrightarrow> rs = registerSelectHigh \<and> k = unat n \<and> k < 8"
  by (auto simp add: bit_shl registerSelectLow_def registerSelectHigh_def bit_simps)

lemma valid_PinMap_unat:
  assumes "valid_PinMap pm"
  shows "distinct (map unat [RS pm, RW pm, EN pm, D4 pm, D5 pm, D6 pm, D7 pm, Backlight pm])"
    and "unat (RS pm) < 8" "unat (RW pm) < 8" "unat (EN pm) < 8" "unat (D4 pm) < 8"
        "unat (D5 pm) < 8" "unat (D6 pm) < 8" "unat (D7 pm) < 8" "unat (Backlight pm) < 8"
  using assms by (auto simp add: valid_PinMap_def word_unat_eq_iff word_less_nat_alt)

lemma frame_high_bits:
  assumes v: "valid_PinMap (PinMap lcd)"
    and rs: "rs = registerSelectLow \<or> rs = registerSelectHigh"
  shows "bit (frame lcd rs (instructionHigh (PinMap lcd) v)) (unat (D4 (PinMap lcd))) = bit v 4"
  "bit (frame lcd rs (instructionHigh (PinMap lcd) v)) (unat (D5 (PinMap lcd))) = bit v 5"
  "bit (frame lcd rs (instructionHigh (PinMap lcd) v)) (unat (D6 (PinMap lcd))) = bit v 6"
  "bit (frame lcd rs (instructionHigh (PinMap lcd) v)) (unat (D7 (PinMap lcd))) = bit v 7"
  using valid_PinMap_unat [OF v]
  by (auto simp add: bit_frame bit_instructionHigh bit_shl_rs [OF rs])

lemma frame_low_bits:
  assumes v: "valid_PinMap (PinMap lcd)"
    and rs: "rs = registerSelectLow \<or> rs = registerSelectHigh"
  shows "bit (frame lcd rs (instructionLow (PinMap lcd) v)) (unat (D4 (PinMap lcd))) = bit v 0"
  "bit (frame lcd rs (instructionLow (PinMap lcd) v)) (unat (D5 (PinMap lcd))) = bit v 1"
  "bit (frame lcd rs (instructionLow (PinMap lcd) v)) (unat (D6 (PinMap lcd))) = bit v 2"
  "bit (frame lcd rs (instructionLow (PinMap lcd) v)) (unat (D7 (PinMap lcd))) = bit v 3"
  using valid_PinMap_unat [OF v]
  by (auto simp add: bit_frame bit_instructionLow bit_shl_rs [OF rs])

lemma nibbles_recombine:
  fixes v :: byte
  assumes hi: "\<And>k. bit hi k \<longleftrightarrow> (k = 0 \<and> bit v 4) \<or> (k = 1 \<and> bit v 5) \<or> (k = 2 \<and> bit v 6) \<or> (k = 3 \<and> bit v 7)"
    and lo: "\<And>k. bit lo k \<longleftrightarrow> (k = 0 \<and> bit v 0) \<or> (k = 1 \<and> bit v 1) \<or> (k = 2 \<and> bit v 2) \<or> (k = 3 \<and> bit v 3)"
  shows "push_bit 4 hi OR lo = v"
proof (rule bit_word_eqI)
  fix n assume "n < LENGTH(8)"
  then consider "n = 0" | "n = 1" | "n = 2" | "n = 3" | "n = 4" | "n = 5" | "n = 6" | "n = 7"
    by force
  then show "bit (push_bit 4 hi OR lo) n = bit v n"
  proof cases
    case 1 then show ?thesis by (simp add: bit_or_iff bit_push_bit_iff hi lo)
  next
    case 2 then show ?thesis by (simp add: bit_or_iff bit_push_bit_iff hi lo)
  next
    case 3 then show ?thesis by (simp add: bit_or_iff bit_push_bit_iff hi lo)
  next
    case 4 then show ?thesis by (simp add: bit_or_iff bit_push_bit_iff hi lo)
  next
    case 5 then show ?thesis by (simp add: bit_or_iff bit_push_bit_iff hi lo)
  next
    case 6 then show ?thesis by (simp add: bit_or_iff bit_push_bit_iff hi lo)
  next
    case 7 then show ?thesis by (simp add: bit_or_iff bit_push_bit_iff hi lo)
  next
    case 8 then show ?thesis by (simp add: bit_or_iff bit_push_bit_iff hi lo)
  qed
qed

lemma write_bytes_append:
  "write_bytes bus (xs @ ys) =
     (case write_bytes bus xs of
        (Some err, bus') \<Rightarrow> (Some err, bus')
      | (None, bus') \<Rightarrow> write_bytes bus' ys)"
  by (induction xs arbitrary: bus) (simp_all split: prod.splits option.splits)

lemma write_bytes_ok:
  "(\<forall>j<length bs. fault bus (length (log bus) + j) = None) \<Longrightarrow>
   write_bytes bus bs = (None, bus\<lparr>log := log bus @ bs\<rparr>)"
proof (induction bs arbitrary: bus)
  case Nil
  then show ?case by simp
next
  case (Cons b bs)
  from Cons.prems have first: "fault bus (length (log bus)) = None"
    by force
  have rest: "\<forall>j<length bs. fault (bus\<lparr>log := log bus @ [b]\<rparr>)
      (length (log (bus\<lparr>log := log bus @ [b]\<rparr>)) + j) = None"
    using Cons.prems by force
  show ?case
    using Cons.IH [OF rest] first by (simp add: WriteByte_def)
qed

lemma write_bytes_fail:
  "k < length bs \<Longrightarrow> (\<forall>j<k. fault bus (length (log bus) + j) = None) \<Longrightarrow>
   fault bus (length (log bus) + k) = Some e \<Longrightarrow>
   write_bytes bus bs = (Some e, bus\<lparr>log := log bus @ take (Suc k) bs\<rparr>)"
proof (induction bs arbitrary: bus k)
  case Nil
  then show ?case by simp
next
  case (Cons b bs)
  show ?case
  proof (cases k)
    case 0
    with Cons.prems show ?thesis by (simp add: WriteByte_def)
  next
    case (Suc k')
    let ?bus = "bus\<lparr>log := log bus @ [b]\<rparr>"
    from Cons.prems Suc have first: "fault bus (length (log bus)) = None"
      by force
    have len: "k' < length bs" using Cons.prems Suc by simp
    have before: "\<forall>j<k'. fault ?bus (length (log ?bus) + j) = None"
      using Cons.prems Suc by force
    have at: "fault ?bus (length (log ?bus) + k') = Some e"
      using Cons.prems Suc by simp
    show ?thesis
      using Cons.IH [OF len before at] first Suc by (simp add: WriteByte_def)
  qed
qed

lemma frame_I2C_update [simp]:
  "frame (lcd\<lparr>I2C := b\<rparr>) rs ins = frame lcd rs ins"
  by (simp add: frame_def Let_def)

lemma write_trace_I2C_update [simp]:
  "write_trace (lcd\<lparr>I2C := b\<rparr>) v rs = write_trace lcd v rs"
  by (simp add: write_trace_def)

lemma mode_trace_I2C_update [simp]:
  "mode_trace (lcd\<lparr>I2C := b\<rparr>) = mode_trace lcd"
  by (simp add: mode_trace_def)

lemma send_bind:
  assumes "\<And>b. f (lcd\<lparr>I2C := b\<rparr>) = send (lcd\<lparr>I2C := b\<rparr>) ys"
  shows "(case send lcd xs of (Some err, l) \<Rightarrow> (Some err, l) | (None, l) \<Rightarrow> f l)
         = send lcd (xs @ ys)"
  by (simp add: assms send_def write_bytes_append split: prod.splits option.splits)

lemma lcd_write_send: "lcd_write lcd v rs = send lcd (write_trace lcd v rs)"
  by (simp add: lcd_write_def send_def write_trace_def write_bytes_append
      split: prod.splits option.splits)

lemma WriteInstruction_send:
  "WriteInstruction lcd v = send lcd (write_trace lcd v registerSelectLow)"
  by (simp add: WriteInstruction_def lcd_write_send)

lemma WriteChar_send:
  "WriteChar lcd v = send lcd (write_trace lcd v registerSelectHigh)"
  by (simp add: WriteChar_def lcd_write_send)

lemma send_Nil: "send lcd [] = (None, lcd)"
  by (simp add: send_def)

declare run_functions.simps [simp del]

lemma bind_send:
  assumes "g lcd = send lcd xs"
    and "\<And>b. f (lcd\<lparr>I2C := b\<rparr>) = send (lcd\<lparr>I2C := b\<rparr>) ys"
  shows "(case g lcd of (Some err, l) \<Rightarrow> (Some err, l) | (None, l) \<Rightarrow> f l)
         = send lcd (xs @ ys)"
  unfolding assms(1) by (rule send_bind) (rule assms(2))

lemma setEntryMode_send:
  "setEntryMode lcd = send lcd (write_trace lcd (lcdSetEntryMode OR eMode lcd) registerSelectLow)"
  by (simp add: setEntryMode_def WriteInstruction_send)

lemma setDisplayMode_send:
  "setDisplayMode lcd = send lcd (write_trace lcd (lcdSetDisplayMode OR dMode lcd) registerSelectLow)"
  by (simp add: setDisplayMode_def WriteInstruction_send)

lemma setFunctionMode_send:
  "setFunctionMode lcd = send lcd (write_trace lcd (lcdSetFunctionMode OR fMode lcd) registerSelectLow)"
  by (simp add: setFunctionMode_def WriteInstruction_send)

lemma run_functions_single: "run_functions lcd [f] = f lcd"
  by (simp add: run_functions.simps split: prod.splits option.splits)

lemma run_functions_modes:
  "run_functions lcd [setEntryMode, setDisplayMode, setFunctionMode] = send lcd (mode_trace lcd)"
proof -
  have d: "run_functions (lcd\<lparr>I2C := b\<rparr>) [setDisplayMode, setFunctionMode]
      = send (lcd\<lparr>I2C := b\<rparr>)
          (write_trace lcd (lcdSetDisplayMode OR dMode lcd) registerSelectLow
           @ write_trace lcd (lcdSetFunctionMode OR fMode lcd) registerSelectLow)" for b
    unfolding run_functions.simps(2) [of _ setDisplayMode]
    by (rule bind_send) (simp_all add: setDisplayMode_send run_functions_single setFunctionMode_send)
  show ?thesis
    unfolding run_functions.simps(2) [of _ setEntryMode] mode_trace_def
    by (rule bind_send) (simp_all add: setEntryMode_send d)
qed

lemma SetMode_Nil: "SetMode lcd [] = send lcd (mode_trace lcd)"
  by (simp add: SetMode_def run_functions_modes)

lemma Clear_send:
  "Clear lcd = send lcd (write_trace lcd lcdClearDisplay registerSelectLow @ mode_trace lcd)"
  unfolding Clear_def
  by (rule bind_send) (simp_all add: WriteInstruction_send SetMode_Nil)

declare write_chars.simps [simp del]

lemma length_write_trace [simp]: "length (write_trace lcd v rs) = 6"
  by (simp add: write_trace_def strobe_def)

lemma length_mode_trace [simp]: "length (mode_trace lcd) = 18"
  by (simp add: mode_trace_def)

lemma length_init_trace [simp]: "length (init_trace lcd) = 48"
  by (simp add: init_trace_def)

lemma init_trace_I2C_update [simp]: "init_trace (lcd\<lparr>I2C := b\<rparr>) = init_trace lcd"
  by (simp add: init_trace_def)

lemma chars_trace_I2C_update [simp]: "chars_trace (lcd\<lparr>I2C := b\<rparr>) str = chars_trace lcd str"
  by (simp add: chars_trace_def)

lemma write_chars_send: "write_chars lcd str = send lcd (chars_trace lcd str)"
proof (induction str arbitrary: lcd)
  case Nil
  show ?case by (simp add: write_chars.simps chars_trace_def send_Nil)
next
  case (Cons c cs)
  have "(case send lcd (write_trace lcd (ucast c) registerSelectHigh) of
           (Some err, l) \<Rightarrow> (Some err, l) | (None, l) \<Rightarrow> write_chars l cs)
        = send lcd (write_trace lcd (ucast c) registerSelectHigh @ chars_trace lcd cs)"
    by (rule send_bind) (simp add: Cons.IH)
  then show ?case
    by (simp add: write_chars.simps WriteChar_send chars_trace_def)
qed

lemma lcdInit_send: "lcdInit lcd = send lcd (init_trace lcd)"
proof -
  let ?T = "\<lambda>v. write_trace lcd v registerSelectLow"
  define k1 where "k1 = (\<lambda>l. case WriteInstruction l 0x02 of
      (Some err, l') \<Rightarrow> (Some err, l') | (None, l') \<Rightarrow> Clear l')"
  define k2 where "k2 = (\<lambda>l. case WriteInstruction l 0x03 of
      (Some err, l') \<Rightarrow> (Some err, l') | (None, l') \<Rightarrow> k1 l')"
  define k3 where "k3 = (\<lambda>l. case WriteInstruction l 0x03 of
      (Some err, l') \<Rightarrow> (Some err, l') | (None, l') \<Rightarrow> k2 l')"
  have s1: "k1 (lcd\<lparr>I2C := b\<rparr>)
      = send (lcd\<lparr>I2C := b\<rparr>) (?T 0x02 @ ?T lcdClearDisplay @ mode_trace lcd)" for b
    unfolding k1_def WriteInstruction_send write_trace_I2C_update
    by (rule send_bind) (simp add: Clear_send)
  have s2: "k2 (lcd\<lparr>I2C := b\<rparr>)
      = send (lcd\<lparr>I2C := b\<rparr>) (?T 0x03 @ ?T 0x02 @ ?T lcdClearDisplay @ mode_trace lcd)" for b
    unfolding k2_def WriteInstruction_send write_trace_I2C_update
    by (rule send_bind) (simp add: s1)
  have s3: "k3 (lcd\<lparr>I2C := b\<rparr>)
      = send (lcd\<lparr>I2C := b\<rparr>)
          (?T 0x03 @ ?T 0x03 @ ?T 0x02 @ ?T lcdClearDisplay @ mode_trace lcd)" for b
    unfolding k3_def WriteInstruction_send write_trace_I2C_update
    by (rule send_bind) (simp add: s2)
  have "lcdInit lcd = (case WriteInstruction lcd 0x03 of
      (Some err, l') \<Rightarrow> (Some err, l') | (None, l') \<Rightarrow> k3 l')"
    unfolding lcdInit_def k1_def k2_def k3_def by (rule refl)
  also have "\<dots> = send lcd (init_trace lcd)"
    unfolding WriteInstruction_send init_trace_def
    by (rule send_bind) (simp add: s3)
  finally show ?thesis .
qed

lemma send_ok:
  "(\<forall>j<length bs. fault (I2C lcd) (length (log (I2C lcd)) + j) = None) \<Longrightarrow>
   send lcd bs = (None, lcd\<lparr>I2C := (I2C lcd)\<lparr>log := log (I2C lcd) @ bs\<rparr>\<rparr>)"
  by (simp add: send_def write_bytes_ok)

lemma send_fail:
  "k < length bs \<Longrightarrow> (\<forall>j<k. fault (I2C lcd) (length (log (I2C lcd)) + j) = None) \<Longrightarrow>
   fault (I2C lcd) (length (log (I2C lcd)) + k) = Some e \<Longrightarrow>
   send lcd bs = (Some e, lcd\<lparr>I2C := (I2C lcd)\<lparr>log := log (I2C lcd) @ take (Suc k) bs\<rparr>\<rparr>)"
  by (simp add: send_def write_bytes_fail)

lemma ModeSetters_frame:
  "m \<in> set ModeSetters \<Longrightarrow>
   I2C (m l) = I2C l \<and> PinMap (m l) = PinMap l \<and> backlight (m l) = backlight l"
  unfolding ModeSetters_def by (auto simp add: ModeSetter_defs)

lemma foldl_ModeSetters_frame:
  "set ms \<subseteq> set ModeSetters \<Longrightarrow>
   I2C (foldl (\<lambda>h m. m h) l ms) = I2C l \<and> PinMap (foldl (\<lambda>h m. m h) l ms) = PinMap l
   \<and> backlight (foldl (\<lambda>h m. m h) l ms) = backlight l"
  by (induction ms arbitrary: l) (simp_all add: ModeSetters_frame)

lemma DefaultModes_subset: "set DefaultModes \<subseteq> set ModeSetters"
  by (simp add: DefaultModes_def ModeSetters_def)

lemma data_nibble_high:
  assumes "valid_PinMap (PinMap lcd)" and "rs = registerSelectLow \<or> rs = registerSelectHigh"
  shows "bit (data_nibble (PinMap lcd) (frame lcd rs (instructionHigh (PinMap lcd) v))) k \<longleftrightarrow>
     (k = 0 \<and> bit v 4) \<or> (k = 1 \<and> bit v 5) \<or> (k = 2 \<and> bit v 6) \<or> (k = 3 \<and> bit v 7)"
  unfolding bit_data_nibble frame_high_bits [OF assms] ..

lemma data_nibble_low:
  assumes "valid_PinMap (PinMap lcd)" and "rs = registerSelectLow \<or> rs = registerSelectHigh"
  shows "bit (data_nibble (PinMap lcd) (frame lcd rs (instructionLow (PinMap lcd) v))) k \<longleftrightarrow>
     (k = 0 \<and> bit v 0) \<or> (k = 1 \<and> bit v 1) \<or> (k = 2 \<and> bit v 2) \<or> (k = 3 \<and> bit v 3)"
  unfolding bit_data_nibble frame_low_bits [OF assms] ..

lemma valid_PCF8574PinMap: "valid_PinMap PCF8574PinMap"
  by (simp add: valid_PinMap_def PCF8574PinMap_def)

lemma valid_MJKDZPinMap: "valid_PinMap MJKDZPinMap"
  by (simp add: valid_PinMap_def MJKDZPinMap_def)

lemma PinMap_lcd0: "PinMap lcd0 = PCF8574PinMap"
  by (simp add: lcd0_def)

lemma bit_write_trace:
  assumes rs: "rs = registerSelectLow \<or> rs = registerSelectHigh"
    and b: "b \<in> set (write_trace lcd v rs)" and k: "bit b k"
  shows "k \<in> unat ` {RS (PinMap lcd), EN (PinMap lcd), D4 (PinMap lcd), D5 (PinMap lcd),
                       D6 (PinMap lcd), D7 (PinMap lcd), Backlight (PinMap lcd)}"
  using b k
  by (auto simp add: write_trace_def strobe_def bit_or_iff bit_frame bit_instructionHigh
      bit_instructionLow bit_shl_rs [OF rs] bit_shl_1)

lemma write_trace_lcd0_A:
  "write_trace lcd0 0x41 registerSelectHigh = [0x49, 0x4D, 0x49, 0x19, 0x1D, 0x19]"
  by (simp add: write_trace_def strobe_def frame_def instructionHigh_def instructionLow_def
      shl_def lcd0_def PCF8574PinMap_def Positive_def registerSelectHigh_def)

lemma frame_enable_low:
  assumes v: "valid_PinMap (PinMap lcd)"
    and rs: "rs = registerSelectLow \<or> rs = registerSelectHigh"
  shows "\<not> bit (frame lcd rs (instructionHigh (PinMap lcd) d)) (unat (EN (PinMap lcd)))"
    and "\<not> bit (frame lcd rs (instructionLow (PinMap lcd) d)) (unat (EN (PinMap lcd)))"
  using valid_PinMap_unat [OF v]
  by (auto simp add: bit_frame bit_instructionHigh bit_instructionLow bit_shl_rs [OF rs])

lemma enable_asserted:
  "valid_PinMap pm \<Longrightarrow> bit (f OR shl 0x01 (EN pm)) (unat (EN pm))"
  using valid_PinMap_unat(4) [of pm] by (simp add: bit_or_iff bit_shl_1)

lemma DisplayString_send:
  "DisplayString lcd str line pos =
     send lcd (write_trace lcd (lcdSetDDRamAddr
         + (if line = 1 then pos
            else if line = 2 then 0x40 + pos
            else if line = 3 then 0x10 + pos
            else if line = 4 then 0x54 + pos
            else 0)) registerSelectLow
       @ chars_trace lcd str)"
  unfolding DisplayString_def Let_def WriteInstruction_send
  by (rule send_bind) (simp add: write_chars_send)

lemma length_chars_trace [simp]: "length (chars_trace lcd str) = 6 * length str"
  by (induction str) (simp_all add: chars_trace_def)

lemma SetMode_send:
  "SetMode lcd modes = send (foldl (\<lambda>h m. m h) lcd modes) (mode_trace (foldl (\<lambda>h m. m h) lcd modes))"
  by (simp add: SetMode_def run_functions_modes)

lemma foldl_ModeSetters_I2C_update:
  "set ms \<subseteq> set ModeSetters \<Longrightarrow>
   foldl (\<lambda>h m. m h) (l\<lparr>I2C := b\<rparr>) ms = (foldl (\<lambda>h m. m h) l ms)\<lparr>I2C := b\<rparr>"
proof (induction ms arbitrary: l)
  case Nil
  then show ?case by simp
next
  case (Cons m ms)
  from Cons.prems have "m \<in> set ModeSetters" by simp
  then have "m (l\<lparr>I2C := b\<rparr>) = (m l)\<lparr>I2C := b\<rparr>"
    unfolding ModeSetters_def by (auto simp add: ModeSetter_defs)
  with Cons show ?case by simp
qed

lemma NewHd44780I2c_ok:
  assumes modes: "set modes \<subseteq> set ModeSetters"
    and ok: "\<forall>j<66. fault bus (length (log bus) + j) = None"
    and c: "c = \<lparr>I2C = bus, PinMap = pinMap, backlight = True,
                 eMode = 0x00, dMode = 0x00, fMode = 0x00\<rparr>"
    and c': "c' = foldl (\<lambda>h m. m h) c (DefaultModes @ modes)"
  shows "NewHd44780I2c bus pinMap modes =
     Inr (c'\<lparr>I2C := bus\<lparr>log := log bus @ init_trace c @ mode_trace c'\<rparr>\<rparr>)"
    and "PinMap c' = pinMap" and "backlight c' = True"
proof -
  define bus1 where "bus1 = bus\<lparr>log := log bus @ init_trace c\<rparr>"
  define c2 where "c2 = foldl (\<lambda>h m. m h) (c\<lparr>I2C := bus1\<rparr>) (DefaultModes @ modes)"
  have sub: "set (DefaultModes @ modes) \<subseteq> set ModeSetters"
    using modes DefaultModes_subset by simp
  have bus: "I2C c = bus"
    by (simp add: c)
  have "\<forall>j<length (init_trace c). fault (I2C c) (length (log (I2C c)) + j) = None"
    using ok by (simp add: bus)
  then have init: "lcdInit c = (None, c\<lparr>I2C := bus1\<rparr>)"
    unfolding lcdInit_send bus1_def by (simp add: send_ok bus)
  have c2: "c2 = c'\<lparr>I2C := bus1\<rparr>"
    unfolding c2_def c' by (rule foldl_ModeSetters_I2C_update [OF sub])
  have "\<forall>j<length (mode_trace c2). fault (I2C c2) (length (log (I2C c2)) + j) = None"
    using ok by (simp add: c2 bus1_def add.assoc)
  then have "send c2 (mode_trace c2)
      = (None, c2\<lparr>I2C := (I2C c2)\<lparr>log := log (I2C c2) @ mode_trace c2\<rparr>\<rparr>)"
    by (rule send_ok)
  then have set: "SetMode (c\<lparr>I2C := bus1\<rparr>) (DefaultModes @ modes)
      = (None, c'\<lparr>I2C := bus\<lparr>log := log bus @ init_trace c @ mode_trace c'\<rparr>\<rparr>)"
    unfolding SetMode_send c2_def [symmetric] by (simp add: c2 bus1_def)
  show "NewHd44780I2c bus pinMap modes =
     Inr (c'\<lparr>I2C := bus\<lparr>log := log bus @ init_trace c @ mode_trace c'\<rparr>\<rparr>)"
    unfolding NewHd44780I2c_def Let_def c [symmetric] init by (simp add: set)
  show "PinMap c' = pinMap" "backlight c' = True"
    using foldl_ModeSetters_frame [OF sub, of c] by (simp_all add: c' c)
qed

lemmas trace_eval =
  write_trace_def strobe_def frame_def instructionHigh_def instructionLow_def shl_def
  mode_trace_def init_trace_def chars_trace_def
  PCF8574PinMap_def shared_PinMap_def Positive_def Negative_def lcd_consts

lemma lcd0_sel [simp]:
  "I2C lcd0 = fresh_bus" "PinMap lcd0 = PCF8574PinMap" "backlight lcd0 = True"
  "eMode lcd0 = 0" "dMode lcd0 = 0" "fMode lcd0 = 0"
  by (simp_all add: lcd0_def)

lemma ready_lcd_sel [simp]:
  "I2C ready_lcd = fresh_bus" "PinMap ready_lcd = PCF8574PinMap" "backlight ready_lcd = True"
  "eMode ready_lcd = 2" "dMode ready_lcd = 4" "fMode ready_lcd = 8"
  by (simp_all add: ready_lcd_def)

lemma fresh_bus_sel [simp]: "log fresh_bus = []" "fault fresh_bus n = None"
  by (simp_all add: fresh_bus_def never_fails_def)

lemma send_fresh:
  "I2C lcd = fresh_bus \<Longrightarrow> send lcd bs = (None, lcd\<lparr>I2C := fresh_bus\<lparr>log := bs\<rparr>\<rparr>)"
  using send_ok [of bs lcd] by simp

lemma data_nibble_enable:
  assumes "valid_PinMap pm"
  shows "data_nibble pm (f OR shl 0x01 (EN pm)) = data_nibble pm f"
  using valid_PinMap_unat [OF assms]
  by (intro bit_word_eqI) (auto simp add: bit_data_nibble bit_or_iff bit_shl_1)

lemma data_nibble_reset:
  assumes v: "valid_PinMap (PinMap lcd)"
  shows "data_nibble (PinMap lcd) (frame lcd registerSelectLow (instructionHigh (PinMap lcd) 0x03)) = 0x0"
    and "data_nibble (PinMap lcd) (frame lcd registerSelectLow (instructionLow (PinMap lcd) 0x03)) = 0x3"
proof -
  have rs: "registerSelectLow = registerSelectLow \<or> registerSelectLow = registerSelectHigh"
    by simp
  show "data_nibble (PinMap lcd) (frame lcd registerSelectLow (instructionHigh (PinMap lcd) 0x03)) = 0x0"
    by (intro bit_word_eqI) (simp add: data_nibble_high [OF v rs])
  show "data_nibble (PinMap lcd) (frame lcd registerSelectLow (instructionLow (PinMap lcd) 0x03)) = 0x3"
  proof (rule bit_word_eqI)
    fix n assume "n < LENGTH(8)"
    then consider "n = 0" | "n = 1" | "n = 2" | "n = 3" | "n = 4" | "n = 5" | "n = 6" | "n = 7"
      by force
    then show "bit (data_nibble (PinMap lcd)
        (frame lcd registerSelectLow (instructionLow (PinMap lcd) 0x03))) n = bit (0x3 :: byte) n"
      by cases (simp_all add: data_nibble_low [OF v rs])
  qed
qed

section \<open>The frame encoder\<close>

text \<open>
  Claim C1.  For a pin map that satisfies the invariant, every byte \<open>v\<close> and either
  register-select flag, \<open>write\<close> sends two frames: bits 4 to 7 of \<open>v\<close> sit on the
  positions D4 to D7 of the first frame, bits 0 to 3 of \<open>v\<close> on the same positions of
  the second, and the nibble read from the first frame, shifted by four, joined with
  the nibble read from the second is \<open>v\<close> again.
\<close>

theorem frames_carry_nibbles:
  assumes "valid_PinMap (PinMap lcd)"
    and "rs = registerSelectLow \<or> rs = registerSelectHigh"
  shows
   "let pm = PinMap lcd;
        fh = frame lcd rs (instructionHigh pm v);
        fl = frame lcd rs (instructionLow pm v)
    in lcd_write lcd v rs = send lcd (strobe pm fh @ strobe pm fl)
       \<and> bit fh (unat (D4 pm)) = bit v 4 \<and> bit fh (unat (D5 pm)) = bit v 5
       \<and> bit fh (unat (D6 pm)) = bit v 6 \<and> bit fh (unat (D7 pm)) = bit v 7
       \<and> bit fl (unat (D4 pm)) = bit v 0 \<and> bit fl (unat (D5 pm)) = bit v 1
       \<and> bit fl (unat (D6 pm)) = bit v 2 \<and> bit fl (unat (D7 pm)) = bit v 3
       \<and> push_bit 4 (data_nibble pm fh) OR data_nibble pm fl = v"
proof -
  have "push_bit 4 (data_nibble (PinMap lcd) (frame lcd rs (instructionHigh (PinMap lcd) v)))
        OR data_nibble (PinMap lcd) (frame lcd rs (instructionLow (PinMap lcd) v)) = v"
    by (rule nibbles_recombine) (rule data_nibble_high [OF assms], rule data_nibble_low [OF assms])
  moreover have "lcd_write lcd v rs = send lcd (write_trace lcd v rs)"
    by (rule lcd_write_send)
  ultimately show ?thesis
    unfolding Let_def write_trace_def
    using frame_high_bits [OF assms, of v] frame_low_bits [OF assms, of v] by simp
qed

theorem frames_carry_nibbles_witness:
  "valid_PinMap (PinMap lcd0)
   \<and> (registerSelectHigh = registerSelectLow \<or> registerSelectHigh = registerSelectHigh)
   \<and> push_bit 4 (data_nibble PCF8574PinMap
          (frame lcd0 registerSelectHigh (instructionHigh PCF8574PinMap 0x41)))
       OR data_nibble PCF8574PinMap
          (frame lcd0 registerSelectHigh (instructionLow PCF8574PinMap 0x41)) = 0x41"
proof -
  have v: "valid_PinMap (PinMap lcd0)"
    by (simp add: PinMap_lcd0 valid_PCF8574PinMap)
  have r: "registerSelectHigh = registerSelectLow \<or> registerSelectHigh = registerSelectHigh"
    by simp
  from frames_carry_nibbles [OF v r, where v = "0x41"] v show ?thesis
    by (simp add: Let_def PinMap_lcd0)
qed

text \<open>
  Claim C6.  Whatever the pin map (distinct positions or not), the byte, the
  register-select flag and the backlight state: a bit that is set in one of the six
  bytes \<open>write\<close> hands to the transport sits on one of the eight assigned positions.
\<close>

theorem frame_bits_assigned:
  assumes "rs = registerSelectLow \<or> rs = registerSelectHigh"
    and "b \<in> set (write_trace lcd v rs)"
    and "bit b k"
  shows "k \<in> assigned (PinMap lcd)"
  using bit_write_trace [OF assms] by (auto simp add: assigned_def)

theorem frame_bits_assigned_witness:
  "(registerSelectHigh = registerSelectLow \<or> registerSelectHigh = registerSelectHigh)
   \<and> 0x4D \<in> set (write_trace lcd0 0x41 registerSelectHigh)
   \<and> bit (0x4D :: byte) 6
   \<and> 6 \<in> assigned (PinMap lcd0)"
proof -
  have r: "registerSelectHigh = registerSelectLow \<or> registerSelectHigh = registerSelectHigh"
    by simp
  have b: "0x4D \<in> set (write_trace lcd0 0x41 registerSelectHigh)"
    by (simp add: write_trace_lcd0_A)
  have k: "bit (0x4D :: byte) 6"
    by simp
  from frame_bits_assigned [OF r b k] r b k show ?thesis
    by simp
qed

section \<open>The strobe\<close>

text \<open>
  Claim C7.  One call of \<open>write\<close> hands six bytes to the transport: each of the two
  frames once as it is, once with the enable bit set, once more as it is.  When the
  \<open>k\<close>-th of these calls is the first to fail, its error is the result, the calls up to
  and including it stay in the log and no later call is made.  For a pin map that
  satisfies the invariant the enable bit is low in the frame itself and high in the
  second byte of each triple.
\<close>

theorem write_strobes_each_frame:
  "let pm = PinMap lcd; bus = I2C lcd; n = length (log bus);
       fh = frame lcd rs (instructionHigh pm v);
       fl = frame lcd rs (instructionLow pm v);
       en = shl 0x01 (EN pm);
       bytes = [fh, fh OR en, fh, fl, fl OR en, fl]
   in ((\<forall>j<6. fault bus (n + j) = None) \<longrightarrow>
         lcd_write lcd v rs = (None, lcd\<lparr>I2C := bus\<lparr>log := log bus @ bytes\<rparr>\<rparr>))
    \<and> (\<forall>k e. k < 6 \<and> (\<forall>j<k. fault bus (n + j) = None) \<and> fault bus (n + k) = Some e \<longrightarrow>
         lcd_write lcd v rs = (Some e, lcd\<lparr>I2C := bus\<lparr>log := log bus @ take (Suc k) bytes\<rparr>\<rparr>))
    \<and> (valid_PinMap pm \<and> (rs = registerSelectLow \<or> rs = registerSelectHigh) \<longrightarrow>
         \<not> bit fh (unat (EN pm)) \<and> bit (fh OR en) (unat (EN pm))
         \<and> \<not> bit fl (unat (EN pm)) \<and> bit (fl OR en) (unat (EN pm)))"
proof -
  let ?bytes = "write_trace lcd v rs"
  have ok: "(\<forall>j<6. fault (I2C lcd) (length (log (I2C lcd)) + j) = None) \<longrightarrow>
      lcd_write lcd v rs = (None, lcd\<lparr>I2C := (I2C lcd)\<lparr>log := log (I2C lcd) @ ?bytes\<rparr>\<rparr>)"
    unfolding lcd_write_send by (simp add: send_ok)
  have fail: "\<forall>k e. k < 6 \<and> (\<forall>j<k. fault (I2C lcd) (length (log (I2C lcd)) + j) = None)
        \<and> fault (I2C lcd) (length (log (I2C lcd)) + k) = Some e \<longrightarrow>
      lcd_write lcd v rs
        = (Some e, lcd\<lparr>I2C := (I2C lcd)\<lparr>log := log (I2C lcd) @ take (Suc k) ?bytes\<rparr>\<rparr>)"
    unfolding lcd_write_send by (simp add: send_fail)
  have en: "valid_PinMap (PinMap lcd) \<and> (rs = registerSelectLow \<or> rs = registerSelectHigh) \<longrightarrow>
      \<not> bit (frame lcd rs (instructionHigh (PinMap lcd) v)) (unat (EN (PinMap lcd)))
      \<and> bit (frame lcd rs (instructionHigh (PinMap lcd) v) OR shl 0x01 (EN (PinMap lcd)))
            (unat (EN (PinMap lcd)))
      \<and> \<not> bit (frame lcd rs (instructionLow (PinMap lcd) v)) (unat (EN (PinMap lcd)))
      \<and> bit (frame lcd rs (instructionLow (PinMap lcd) v) OR shl 0x01 (EN (PinMap lcd)))
            (unat (EN (PinMap lcd)))"
    using frame_enable_low [of lcd rs v] enable_asserted [of "PinMap lcd"] by blast
  have bytes: "?bytes =
      [frame lcd rs (instructionHigh (PinMap lcd) v),
       frame lcd rs (instructionHigh (PinMap lcd) v) OR shl 0x01 (EN (PinMap lcd)),
       frame lcd rs (instructionHigh (PinMap lcd) v),
       frame lcd rs (instructionLow (PinMap lcd) v),
       frame lcd rs (instructionLow (PinMap lcd) v) OR shl 0x01 (EN (PinMap lcd)),
       frame lcd rs (instructionLow (PinMap lcd) v)]"
    by (simp add: write_trace_def strobe_def)
  show ?thesis
    unfolding Let_def using ok fail en unfolding bytes by blast
qed

theorem write_strobes_each_frame_witness:
  "lcd_write lcd0 0x41 registerSelectHigh
     = (None, lcd0\<lparr>I2C := fresh_bus\<lparr>log := [0x49, 0x4D, 0x49, 0x19, 0x1D, 0x19]\<rparr>\<rparr>)
   \<and> lcd_write (lcd0\<lparr>I2C := faulty_bus\<rparr>) 0x41 registerSelectHigh
     = (Some (TransportError 5),
        lcd0\<lparr>I2C := faulty_bus\<lparr>log := [0x49, 0x4D, 0x49, 0x19, 0x1D]\<rparr>\<rparr>)
   \<and> valid_PinMap (PinMap lcd0)
   \<and> \<not> bit (0x49 :: byte) 2 \<and> bit (0x4D :: byte) 2 \<and> \<not> bit (0x19 :: byte) 2 \<and> bit (0x1D :: byte) 2"
proof -
  have fr: "frame lcd0 registerSelectHigh (instructionHigh PCF8574PinMap 0x41) = 0x49"
    "frame lcd0 registerSelectHigh (instructionLow PCF8574PinMap 0x41) = 0x19"
    "frame (lcd0\<lparr>I2C := faulty_bus\<rparr>) registerSelectHigh (instructionHigh PCF8574PinMap 0x41) = 0x49"
    "frame (lcd0\<lparr>I2C := faulty_bus\<rparr>) registerSelectHigh (instructionLow PCF8574PinMap 0x41) = 0x19"
    "shl 0x01 (EN PCF8574PinMap) = 0x04"
    by (simp_all add: frame_def instructionHigh_def instructionLow_def
      shl_def lcd0_def PCF8574PinMap_def Positive_def registerSelectHigh_def)
  have v: "valid_PinMap (PinMap lcd0)"
    by (simp add: PinMap_lcd0 valid_PCF8574PinMap)
  have i: "I2C lcd0 = fresh_bus" "log fresh_bus = []" "fault fresh_bus = never_fails"
    "log faulty_bus = []" "fault faulty_bus = fails_at 4 (TransportError 5)"
    by (simp_all add: lcd0_def fresh_bus_def faulty_bus_def)
  have "lcd_write lcd0 0x41 registerSelectHigh
     = (None, lcd0\<lparr>I2C := fresh_bus\<lparr>log := [0x49, 0x4D, 0x49, 0x19, 0x1D, 0x19]\<rparr>\<rparr>)"
    using write_strobes_each_frame [of lcd0 registerSelectHigh "0x41"]
    by (simp add: Let_def PinMap_lcd0 fr i never_fails_def)
  moreover have "lcd_write (lcd0\<lparr>I2C := faulty_bus\<rparr>) 0x41 registerSelectHigh
     = (Some (TransportError 5),
        lcd0\<lparr>I2C := faulty_bus\<lparr>log := [0x49, 0x4D, 0x49, 0x19, 0x1D]\<rparr>\<rparr>)"
  proof -
    have "4 < (6::nat) \<and> (\<forall>j<4. fails_at 4 (TransportError 5) j = None)
        \<and> fails_at 4 (TransportError 5) 4 = Some (TransportError 5)"
      by (simp add: fails_at_def)
    then show ?thesis
      using write_strobes_each_frame [of "lcd0\<lparr>I2C := faulty_bus\<rparr>" registerSelectHigh "0x41",
          unfolded Let_def, THEN conjunct2, THEN conjunct1, rule_format, of 4 "TransportError 5"]
      by (simp add: PinMap_lcd0 fr i)
  qed
  moreover have "\<not> bit (0x49 :: byte) 2 \<and> bit (0x4D :: byte) 2
      \<and> \<not> bit (0x19 :: byte) 2 \<and> bit (0x1D :: byte) 2"
    using write_strobes_each_frame [of lcd0 registerSelectHigh "0x41"] v
    by (simp add: Let_def PinMap_lcd0 fr PCF8574PinMap_def registerSelectHigh_def registerSelectLow_def)
  ultimately show ?thesis using v by simp
qed

section \<open>Clearing the display\<close>

text \<open>
  Claim C8.  \<open>Clear\<close> leaves the entry, display and function bitfields as they were,
  so every mode query answers after it as before it; this holds in every state of the
  connection and whether or not the transport fails.  When none of its 24 bus writes
  fails, \<open>Clear\<close> sends the clear instruction and after it the entry, display and
  function mode instructions with the unchanged bitfields.
\<close>

theorem Clear_recommits_modes:
  "eMode (snd (Clear lcd)) = eMode lcd
   \<and> dMode (snd (Clear lcd)) = dMode lcd
   \<and> fMode (snd (Clear lcd)) = fMode lcd
   \<and> EntryIncrementEnabled (snd (Clear lcd)) = EntryIncrementEnabled lcd
   \<and> EntryShiftEnabled (snd (Clear lcd)) = EntryShiftEnabled lcd
   \<and> DisplayEnabled (snd (Clear lcd)) = DisplayEnabled lcd
   \<and> CursorEnabled (snd (Clear lcd)) = CursorEnabled lcd
   \<and> BlinkEnabled (snd (Clear lcd)) = BlinkEnabled lcd
   \<and> EightBitModeEnabled (snd (Clear lcd)) = EightBitModeEnabled lcd
   \<and> TwoLineEnabled (snd (Clear lcd)) = TwoLineEnabled lcd
   \<and> ((\<forall>j<24. fault (I2C lcd) (length (log (I2C lcd)) + j) = None) \<longrightarrow>
        Clear lcd =
          (None, lcd\<lparr>I2C := (I2C lcd)\<lparr>log := log (I2C lcd)
             @ write_trace lcd lcdClearDisplay registerSelectLow
             @ write_trace lcd (lcdSetEntryMode OR eMode lcd) registerSelectLow
             @ write_trace lcd (lcdSetDisplayMode OR dMode lcd) registerSelectLow
             @ write_trace lcd (lcdSetFunctionMode OR fMode lcd) registerSelectLow\<rparr>\<rparr>))"
proof -
  have modes: "eMode (snd (send lcd bs)) = eMode lcd \<and> dMode (snd (send lcd bs)) = dMode lcd
      \<and> fMode (snd (send lcd bs)) = fMode lcd" for bs
    by (simp add: send_def split: prod.splits)
  have ok: "(\<forall>j<24. fault (I2C lcd) (length (log (I2C lcd)) + j) = None) \<longrightarrow>
      Clear lcd = (None, lcd\<lparr>I2C := (I2C lcd)\<lparr>log := log (I2C lcd)
         @ write_trace lcd lcdClearDisplay registerSelectLow @ mode_trace lcd\<rparr>\<rparr>)"
    unfolding Clear_send by (simp add: send_ok)
  show ?thesis
    using modes [of "write_trace lcd lcdClearDisplay registerSelectLow @ mode_trace lcd"] ok
    unfolding Clear_send mode_trace_def
    by (simp add: EntryIncrementEnabled_def EntryShiftEnabled_def DisplayEnabled_def
        CursorEnabled_def BlinkEnabled_def EightBitModeEnabled_def TwoLineEnabled_def)
qed

theorem Clear_recommits_modes_witness:
  "Clear ready_lcd =
     (None, ready_lcd\<lparr>I2C := fresh_bus\<lparr>log :=
         [0x08, 0x0C, 0x08, 0x18, 0x1C, 0x18, 0x08, 0x0C, 0x08, 0x68, 0x6C, 0x68,
          0x08, 0x0C, 0x08, 0xC8, 0xCC, 0xC8, 0x28, 0x2C, 0x28, 0x88, 0x8C, 0x88]\<rparr>\<rparr>)
   \<and> DisplayEnabled ready_lcd \<and> DisplayEnabled (snd (Clear ready_lcd))
   \<and> EntryIncrementEnabled ready_lcd \<and> EntryIncrementEnabled (snd (Clear ready_lcd))"
proof -
  have q: "DisplayEnabled ready_lcd" "EntryIncrementEnabled ready_lcd"
    by (simp_all add: DisplayEnabled_def EntryIncrementEnabled_def lcd_consts)
  from Clear_recommits_modes [of ready_lcd] q show ?thesis
    by (simp add: trace_eval DisplayEnabled_def EntryIncrementEnabled_def)
qed

section \<open>Mode setters are idempotent\<close>

text \<open>
  Claim C9.  Each of the sixteen mode setters of the driver, applied twice, leaves the
  connection (and so its entry, display and function bitfields) as one application does.
\<close>

theorem ModeSetter_idempotent:
  "EntryDecrement (EntryDecrement lcd) = EntryDecrement lcd
   \<and> EntryIncrement (EntryIncrement lcd) = EntryIncrement lcd
   \<and> EntryShiftOff (EntryShiftOff lcd) = EntryShiftOff lcd
   \<and> EntryShiftOn (EntryShiftOn lcd) = EntryShiftOn lcd
   \<and> DisplayOff (DisplayOff lcd) = DisplayOff lcd
   \<and> DisplayOn (DisplayOn lcd) = DisplayOn lcd
   \<and> UnderlineCursorOff (UnderlineCursorOff lcd) = UnderlineCursorOff lcd
   \<and> UnderlineCursorOn (UnderlineCursorOn lcd) = UnderlineCursorOn lcd
   \<and> BlinkCursorOff (BlinkCursorOff lcd) = BlinkCursorOff lcd
   \<and> BlinkCursorOn (BlinkCursorOn lcd) = BlinkCursorOn lcd
   \<and> FourBitMode (FourBitMode lcd) = FourBitMode lcd
   \<and> EightBitMode (EightBitMode lcd) = EightBitMode lcd
   \<and> OneLine (OneLine lcd) = OneLine lcd
   \<and> TwoLine (TwoLine lcd) = TwoLine lcd
   \<and> Dots5x8 (Dots5x8 lcd) = Dots5x8 lcd
   \<and> Dots5x10 (Dots5x10 lcd) = Dots5x10 lcd"
  by (simp add: ModeSetter_defs)

section \<open>Backlight switching\<close>

text \<open>
  Claim C10.  Whatever the pin map, \<open>BacklightOn\<close> hands the one byte 0x08 to the
  transport and sets the backlight flag; \<open>BacklightOff\<close> hands it the one byte 0x00
  and clears the flag.  Nothing else of the connection changes, and the result is the
  transport's answer to that one call.
\<close>

theorem Backlight_fixed_byte:
  "BacklightOn lcd =
     (fault (I2C lcd) (length (log (I2C lcd))),
      lcd\<lparr>backlight := True, I2C := (I2C lcd)\<lparr>log := log (I2C lcd) @ [0x08]\<rparr>\<rparr>)
   \<and> BacklightOff lcd =
     (fault (I2C lcd) (length (log (I2C lcd))),
      lcd\<lparr>backlight := False, I2C := (I2C lcd)\<lparr>log := log (I2C lcd) @ [0x00]\<rparr>\<rparr>)"
  by (simp add: BacklightOn_def BacklightOff_def WriteByte_def lcd_consts)

section \<open>Initialization\<close>

text \<open>
  Claim C5 as the specification states it fails: the first reset step of \<open>lcdInit\<close>
  makes six bus writes, two strobe cycles, and the nibble on the data lines during the
  first cycle is 0000, not 0011.
\<close>

theorem lcdInit_reset_counterexample:
  "lcdInit lcd0 =
     (None, lcd0\<lparr>I2C := fresh_bus\<lparr>log :=
         [0x08, 0x0C, 0x08, 0x38, 0x3C, 0x38, 0x08, 0x0C, 0x08, 0x38, 0x3C, 0x38,
          0x08, 0x0C, 0x08, 0x38, 0x3C, 0x38, 0x08, 0x0C, 0x08, 0x28, 0x2C, 0x28,
          0x08, 0x0C, 0x08, 0x18, 0x1C, 0x18, 0x08, 0x0C, 0x08, 0x48, 0x4C, 0x48,
          0x08, 0x0C, 0x08, 0x88, 0x8C, 0x88, 0x28, 0x2C, 0x28, 0x08, 0x0C, 0x08]\<rparr>\<rparr>)
   \<and> map (data_nibble PCF8574PinMap) [0x08, 0x0C, 0x08, 0x38, 0x3C, 0x38]
       = [0x0, 0x0, 0x0, 0x3, 0x3, 0x3]"
  unfolding lcdInit_send by (simp add: send_fresh trace_eval data_nibble_def)

text \<open>
  Claim C5, amended.  Each of the three reset steps of \<open>lcdInit\<close> is a full
  instruction write of the byte 0x03: two frames of three bus writes each, which for a
  pin map that satisfies the invariant carry the nibble 0000 and then the nibble 0011.
\<close>

theorem lcdInit_reset_two_frames:
  "let pm = PinMap lcd; bus = I2C lcd;
       reset = strobe pm (frame lcd registerSelectLow (instructionHigh pm 0x03))
               @ strobe pm (frame lcd registerSelectLow (instructionLow pm 0x03))
   in ((\<forall>j<48. fault bus (length (log bus) + j) = None) \<longrightarrow>
         lcdInit lcd =
           (None, lcd\<lparr>I2C := bus\<lparr>log := log bus @ reset @ reset @ reset
              @ write_trace lcd 0x02 registerSelectLow
              @ write_trace lcd lcdClearDisplay registerSelectLow
              @ write_trace lcd (lcdSetEntryMode OR eMode lcd) registerSelectLow
              @ write_trace lcd (lcdSetDisplayMode OR dMode lcd) registerSelectLow
              @ write_trace lcd (lcdSetFunctionMode OR fMode lcd) registerSelectLow\<rparr>\<rparr>))
      \<and> length reset = 6
      \<and> (valid_PinMap pm \<longrightarrow> map (data_nibble pm) reset = [0x0, 0x0, 0x0, 0x3, 0x3, 0x3])"
proof -
  have ok: "(\<forall>j<48. fault (I2C lcd) (length (log (I2C lcd)) + j) = None) \<longrightarrow>
      lcdInit lcd = (None, lcd\<lparr>I2C := (I2C lcd)\<lparr>log := log (I2C lcd) @ init_trace lcd\<rparr>\<rparr>)"
    unfolding lcdInit_send by (simp add: send_ok)
  have nib: "valid_PinMap (PinMap lcd) \<longrightarrow>
      map (data_nibble (PinMap lcd)) (write_trace lcd 0x03 registerSelectLow)
        = [0x0, 0x0, 0x0, 0x3, 0x3, 0x3]"
    by (simp add: write_trace_def strobe_def data_nibble_enable data_nibble_reset)
  have len: "length (write_trace lcd 0x03 registerSelectLow) = 6"
    by simp
  from ok nib len show ?thesis
    unfolding Let_def init_trace_def mode_trace_def write_trace_def [of lcd 3]
    by simp
qed

theorem lcdInit_reset_two_frames_witness:
  "lcdInit lcd0 =
     (None, lcd0\<lparr>I2C := fresh_bus\<lparr>log :=
         [0x08, 0x0C, 0x08, 0x38, 0x3C, 0x38, 0x08, 0x0C, 0x08, 0x38, 0x3C, 0x38,
          0x08, 0x0C, 0x08, 0x38, 0x3C, 0x38, 0x08, 0x0C, 0x08, 0x28, 0x2C, 0x28,
          0x08, 0x0C, 0x08, 0x18, 0x1C, 0x18, 0x08, 0x0C, 0x08, 0x48, 0x4C, 0x48,
          0x08, 0x0C, 0x08, 0x88, 0x8C, 0x88, 0x28, 0x2C, 0x28, 0x08, 0x0C, 0x08]\<rparr>\<rparr>)
   \<and> valid_PinMap (PinMap lcd0)
   \<and> map (data_nibble (PinMap lcd0))
        (strobe (PinMap lcd0) (frame lcd0 registerSelectLow (instructionHigh (PinMap lcd0) 0x03))
         @ strobe (PinMap lcd0) (frame lcd0 registerSelectLow (instructionLow (PinMap lcd0) 0x03)))
       = [0x0, 0x0, 0x0, 0x3, 0x3, 0x3]"
proof -
  have v: "valid_PinMap (PinMap lcd0)"
    by (simp add: valid_PCF8574PinMap)
  note inst = lcdInit_reset_two_frames [of lcd0, unfolded Let_def]
  from inst [THEN conjunct1] have a: "lcdInit lcd0 =
     (None, lcd0\<lparr>I2C := fresh_bus\<lparr>log :=
         [0x08, 0x0C, 0x08, 0x38, 0x3C, 0x38, 0x08, 0x0C, 0x08, 0x38, 0x3C, 0x38,
          0x08, 0x0C, 0x08, 0x38, 0x3C, 0x38, 0x08, 0x0C, 0x08, 0x28, 0x2C, 0x28,
          0x08, 0x0C, 0x08, 0x18, 0x1C, 0x18, 0x08, 0x0C, 0x08, 0x48, 0x4C, 0x48,
          0x08, 0x0C, 0x08, 0x88, 0x8C, 0x88, 0x28, 0x2C, 0x28, 0x08, 0x0C, 0x08]\<rparr>\<rparr>)"
    by (simp add: trace_eval)
  from inst [THEN conjunct2, THEN conjunct2] v
  have b: "map (data_nibble (PinMap lcd0))
        (strobe (PinMap lcd0) (frame lcd0 registerSelectLow (instructionHigh (PinMap lcd0) 0x03))
         @ strobe (PinMap lcd0) (frame lcd0 registerSelectLow (instructionLow (PinMap lcd0) 0x03)))
       = [0x0, 0x0, 0x0, 0x3, 0x3, 0x3]"
    by blast
  from a v b show ?thesis by blast
qed

section \<open>The constructor\<close>

text \<open>
  Claim C4 as the specification states it fails: on a pin map in which D4 and the
  backlight share bit position 2 the constructor returns a connection, after 66 bus
  writes.
\<close>

theorem NewHd44780I2c_shared_counterexample:
  "NewHd44780I2c fresh_bus shared_PinMap [] =
     Inr \<lparr>I2C = fresh_bus\<lparr>log :=
         [0x04, 0x0C, 0x04, 0x24, 0x2C, 0x24, 0x04, 0x0C, 0x04, 0x24, 0x2C, 0x24,
          0x04, 0x0C, 0x04, 0x24, 0x2C, 0x24, 0x04, 0x0C, 0x04, 0x24, 0x2C, 0x24,
          0x04, 0x0C, 0x04, 0x04, 0x0C, 0x04, 0x04, 0x0C, 0x04, 0x44, 0x4C, 0x44,
          0x04, 0x0C, 0x04, 0x84, 0x8C, 0x84, 0x24, 0x2C, 0x24, 0x04, 0x0C, 0x04,
          0x04, 0x0C, 0x04, 0x64, 0x6C, 0x64, 0x04, 0x0C, 0x04, 0xC4, 0xCC, 0xC4,
          0x24, 0x2C, 0x24, 0x84, 0x8C, 0x84]\<rparr>,
       PinMap = shared_PinMap, backlight = True, eMode = 0x02, dMode = 0x04, fMode = 0x08\<rparr>
   \<and> D4 shared_PinMap = 2 \<and> Backlight shared_PinMap = 2"
proof -
  define c :: Hd44780I2c where "c = \<lparr>I2C = fresh_bus, PinMap = shared_PinMap, backlight = True,
                 eMode = 0x00, dMode = 0x00, fMode = 0x00\<rparr>"
  define c' where "c' = foldl (\<lambda>h m. m h) c (DefaultModes @ [])"
  have ms: "set [] \<subseteq> set ModeSetters"
    by simp
  have ok: "\<forall>j<66. fault fresh_bus (length (log fresh_bus) + j) = None"
    by simp
  have c'_eq: "c' = \<lparr>I2C = fresh_bus, PinMap = shared_PinMap, backlight = True,
                 eMode = 0x02, dMode = 0x04, fMode = 0x08\<rparr>"
    by (simp add: c'_def c_def DefaultModes_def ModeSetter_defs lcd_consts)
  have i: "init_trace c =
      [0x04, 0x0C, 0x04, 0x24, 0x2C, 0x24, 0x04, 0x0C, 0x04, 0x24, 0x2C, 0x24,
          0x04, 0x0C, 0x04, 0x24, 0x2C, 0x24, 0x04, 0x0C, 0x04, 0x24, 0x2C, 0x24,
          0x04, 0x0C, 0x04, 0x04, 0x0C, 0x04, 0x04, 0x0C, 0x04, 0x44, 0x4C, 0x44,
          0x04, 0x0C, 0x04, 0x84, 0x8C, 0x84, 0x24, 0x2C, 0x24, 0x04, 0x0C, 0x04]"
    by (simp add: c_def trace_eval)
  have m: "mode_trace c' =
      [0x04, 0x0C, 0x04, 0x64, 0x6C, 0x64, 0x04, 0x0C, 0x04, 0xC4, 0xCC, 0xC4,
          0x24, 0x2C, 0x24, 0x84, 0x8C, 0x84]"
    by (simp add: c'_eq trace_eval)
  from NewHd44780I2c_ok(1) [OF ms ok c_def c'_def, unfolded i m] show ?thesis
    by (simp add: c'_eq shared_PinMap_def)
qed

text \<open>
  Claim C4, amended.  The constructor does not look at the pin map: for every pin map,
  with shared bit positions or without, and every list of the driver's mode setters,
  when none of its 66 bus writes fails it returns a connection that carries this pin
  map, having sent the initialization sequence and the mode instructions.
\<close>

theorem NewHd44780I2c_accepts_any_PinMap:
  assumes "set modes \<subseteq> set ModeSetters"
    and "\<forall>j<66. fault bus (length (log bus) + j) = None"
  shows "\<exists>c. NewHd44780I2c bus pinMap modes = Inr c
           \<and> PinMap c = pinMap
           \<and> length (log (I2C c)) = length (log bus) + 66
           \<and> log (I2C c) = log bus
                @ init_trace \<lparr>I2C = bus, PinMap = pinMap, backlight = True,
                               eMode = 0x00, dMode = 0x00, fMode = 0x00\<rparr>
                @ mode_trace c"
proof -
  define c :: Hd44780I2c where "c = \<lparr>I2C = bus, PinMap = pinMap, backlight = True,
                 eMode = 0x00, dMode = 0x00, fMode = 0x00\<rparr>"
  define c' where "c' = foldl (\<lambda>h m. m h) c (DefaultModes @ modes)"
  note r = NewHd44780I2c_ok [OF assms c_def c'_def]
  let ?c = "c'\<lparr>I2C := bus\<lparr>log := log bus @ init_trace c @ mode_trace c'\<rparr>\<rparr>"
  have "NewHd44780I2c bus pinMap modes = Inr ?c"
    by (rule r(1))
  moreover have "PinMap ?c = pinMap"
    by (simp add: r(2))
  moreover have "length (log (I2C ?c)) = length (log bus) + 66"
    by simp
  moreover have "log (I2C ?c) = log bus @ init_trace c @ mode_trace ?c"
    by simp
  ultimately show ?thesis
    unfolding c_def by blast
qed

theorem NewHd44780I2c_accepts_any_PinMap_witness:
  "set [UnderlineCursorOn] \<subseteq> set ModeSetters
   \<and> (fault fresh_bus 0 = None \<and> fault fresh_bus 65 = None)
   \<and> \<not> isl (NewHd44780I2c fresh_bus shared_PinMap [UnderlineCursorOn])
   \<and> PinMap (projr (NewHd44780I2c fresh_bus shared_PinMap [UnderlineCursorOn])) = shared_PinMap
   \<and> length (log (I2C (projr (NewHd44780I2c fresh_bus shared_PinMap [UnderlineCursorOn])))) = 66"
proof -
  have ms: "set [UnderlineCursorOn] \<subseteq> set ModeSetters"
    by (simp add: ModeSetters_def)
  have ok: "\<forall>j<66. fault fresh_bus (length (log fresh_bus) + j) = None"
    by simp
  from NewHd44780I2c_accepts_any_PinMap [OF ms ok, of shared_PinMap]
  obtain c where "NewHd44780I2c fresh_bus shared_PinMap [UnderlineCursorOn] = Inr c"
    and "PinMap c = shared_PinMap" and "length (log (I2C c)) = length (log fresh_bus) + 66"
    by blast
  with ms show ?thesis by simp
qed

section \<open>Writing a string\<close>

text \<open>
  Claim C2 as the specification states it fails: with \<open>line = 5\<close> on a transport that
  never fails, \<open>DisplayString\<close> returns no error and makes twelve bus writes, the
  set-address instruction 0x80 and the character.
\<close>

theorem DisplayString_line5_counterexample:
  "DisplayString lcd0 [0x41] 5 0 =
     (None, lcd0\<lparr>I2C := fresh_bus\<lparr>log :=
         [0x88, 0x8C, 0x88, 0x08, 0x0C, 0x08, 0x49, 0x4D, 0x49, 0x19, 0x1D, 0x19]\<rparr>\<rparr>)"
  unfolding DisplayString_send by (simp add: send_fresh trace_eval)

text \<open>
  Claim C2, amended.  A line outside 1 to 4 is not rejected: the \<open>switch\<close> has no
  default, the address stays 0 whatever the column, and the call does what the call
  with line 1 and column 0 does.  When no bus write fails it returns no error, having
  sent the set-address instruction 0x80 and one data write for each character.
\<close>

theorem DisplayString_unsupported_line:
  assumes "line \<notin> {1, 2, 3, 4}"
  shows "DisplayString lcd str line pos = DisplayString lcd str 1 0
    \<and> ((\<forall>j<6 + 6 * length str. fault (I2C lcd) (length (log (I2C lcd)) + j) = None) \<longrightarrow>
         DisplayString lcd str line pos =
           (None, lcd\<lparr>I2C := (I2C lcd)\<lparr>log := log (I2C lcd)
              @ write_trace lcd 0x80 registerSelectLow @ chars_trace lcd str\<rparr>\<rparr>))"
  using assms unfolding DisplayString_send by (simp add: send_ok lcdSetDDRamAddr_def)

theorem DisplayString_unsupported_line_witness:
  "(5 :: byte) \<notin> {1, 2, 3, 4}
   \<and> DisplayString lcd0 [0x41] 5 7 = DisplayString lcd0 [0x41] 1 0
   \<and> DisplayString lcd0 [0x41] 5 7 =
       (None, lcd0\<lparr>I2C := fresh_bus\<lparr>log :=
         [0x88, 0x8C, 0x88, 0x08, 0x0C, 0x08, 0x49, 0x4D, 0x49, 0x19, 0x1D, 0x19]\<rparr>\<rparr>)"
proof -
  have l: "(5 :: byte) \<notin> {1, 2, 3, 4}"
    by simp
  have t: "write_trace lcd0 0x80 registerSelectLow @ chars_trace lcd0 [0x41]
      = [0x88, 0x8C, 0x88, 0x08, 0x0C, 0x08, 0x49, 0x4D, 0x49, 0x19, 0x1D, 0x19]"
    by (simp add: trace_eval)
  note inst = DisplayString_unsupported_line [OF l, of lcd0 "[0x41]" 7]
  from inst have a: "DisplayString lcd0 [0x41] 5 7 = DisplayString lcd0 [0x41] 1 0"
    by (rule conjunct1)
  from inst [THEN conjunct2] have b: "DisplayString lcd0 [0x41] 5 7 =
       (None, lcd0\<lparr>I2C := fresh_bus\<lparr>log :=
         [0x88, 0x8C, 0x88, 0x08, 0x0C, 0x08, 0x49, 0x4D, 0x49, 0x19, 0x1D, 0x19]\<rparr>\<rparr>)"
    by (simp add: t)
  from l a b show ?thesis by blast
qed

text \<open>
  Claim C3 as the specification states it fails: with line 1 and column 3 the
  set-address instruction carries the byte 0x83, not 0xC3.
\<close>

theorem DisplayString_AB_line1_counterexample:
  "DisplayString lcd0 [0x41, 0x42] 1 3 =
     (None, lcd0\<lparr>I2C := fresh_bus\<lparr>log :=
         [0x88, 0x8C, 0x88, 0x38, 0x3C, 0x38, 0x49, 0x4D, 0x49, 0x19, 0x1D, 0x19,
          0x49, 0x4D, 0x49, 0x29, 0x2D, 0x29]\<rparr>\<rparr>)
   \<and> write_trace lcd0 0x83 registerSelectLow = [0x88, 0x8C, 0x88, 0x38, 0x3C, 0x38]
   \<and> write_trace lcd0 0xC3 registerSelectLow = [0xC8, 0xCC, 0xC8, 0x38, 0x3C, 0x38]"
  unfolding DisplayString_send by (simp add: send_fresh trace_eval)

text \<open>
  Claim C3, amended.  The lines are numbered from 1: the row base addresses are 0x00 for
  line 1, 0x40 for line 2, 0x10 for line 3 and 0x54 for line 4.  \<open>DisplayString\<close> of
  the string AB with line 2 and column 3 sends, when no bus write fails, one instruction
  write of the byte 0xC3 followed by the data writes of 0x41 and of 0x42, and nothing
  else.
\<close>

theorem DisplayString_line_table:
  "((\<forall>j<18. fault (I2C lcd) (length (log (I2C lcd)) + j) = None) \<longrightarrow>
      DisplayString lcd [0x41, 0x42] 2 3 =
        (None, lcd\<lparr>I2C := (I2C lcd)\<lparr>log := log (I2C lcd)
           @ write_trace lcd 0xC3 registerSelectLow
           @ write_trace lcd 0x41 registerSelectHigh
           @ write_trace lcd 0x42 registerSelectHigh\<rparr>\<rparr>))
   \<and> (\<forall>str line pos.
        line \<in> {1, 2, 3, 4}
        \<and> (\<forall>j<6 + 6 * length str. fault (I2C lcd) (length (log (I2C lcd)) + j) = None) \<longrightarrow>
        DisplayString lcd str line pos =
          (None, lcd\<lparr>I2C := (I2C lcd)\<lparr>log := log (I2C lcd)
             @ write_trace lcd
                 (0x80 + ((if line = 1 then 0x00 else if line = 2 then 0x40
                           else if line = 3 then 0x10 else 0x54) + pos))
                 registerSelectLow
             @ chars_trace lcd str\<rparr>\<rparr>))"
proof -
  have ab: "chars_trace lcd [0x41, 0x42]
      = write_trace lcd 0x41 registerSelectHigh @ write_trace lcd 0x42 registerSelectHigh"
    by (simp add: chars_trace_def)
  have "(\<forall>j<18. fault (I2C lcd) (length (log (I2C lcd)) + j) = None) \<longrightarrow>
      DisplayString lcd [0x41, 0x42] 2 3 =
        (None, lcd\<lparr>I2C := (I2C lcd)\<lparr>log := log (I2C lcd)
           @ write_trace lcd 0xC3 registerSelectLow
           @ write_trace lcd 0x41 registerSelectHigh
           @ write_trace lcd 0x42 registerSelectHigh\<rparr>\<rparr>)"
    unfolding DisplayString_send ab by (simp add: send_ok lcdSetDDRamAddr_def)
  moreover have "line \<in> {1, 2, 3, 4}
        \<and> (\<forall>j<6 + 6 * length str. fault (I2C lcd) (length (log (I2C lcd)) + j) = None) \<longrightarrow>
        DisplayString lcd str line pos =
          (None, lcd\<lparr>I2C := (I2C lcd)\<lparr>log := log (I2C lcd)
             @ write_trace lcd
                 (0x80 + ((if line = 1 then 0x00 else if line = 2 then 0x40
                           else if line = 3 then 0x10 else 0x54) + pos))
                 registerSelectLow
             @ chars_trace lcd str\<rparr>\<rparr>)" for str line pos
    unfolding DisplayString_send by (auto simp add: send_ok lcdSetDDRamAddr_def)
  ultimately show ?thesis by blast
qed

theorem DisplayString_line_table_witness:
  "DisplayString lcd0 [0x41, 0x42] 2 3 =
     (None, lcd0\<lparr>I2C := fresh_bus\<lparr>log :=
         [0xC8, 0xCC, 0xC8, 0x38, 0x3C, 0x38, 0x49, 0x4D, 0x49, 0x19, 0x1D, 0x19,
          0x49, 0x4D, 0x49, 0x29, 0x2D, 0x29]\<rparr>\<rparr>)
   \<and> (1 :: byte) \<in> {1, 2, 3, 4}
   \<and> DisplayString lcd0 [0x41, 0x42] 1 3 =
     (None, lcd0\<lparr>I2C := fresh_bus\<lparr>log :=
         [0x88, 0x8C, 0x88, 0x38, 0x3C, 0x38, 0x49, 0x4D, 0x49, 0x19, 0x1D, 0x19,
          0x49, 0x4D, 0x49, 0x29, 0x2D, 0x29]\<rparr>\<rparr>)"
proof -
  have t2: "write_trace lcd0 0xC3 registerSelectLow
        @ write_trace lcd0 0x41 registerSelectHigh @ write_trace lcd0 0x42 registerSelectHigh
      = [0xC8, 0xCC, 0xC8, 0x38, 0x3C, 0x38, 0x49, 0x4D, 0x49, 0x19, 0x1D, 0x19,
          0x49, 0x4D, 0x49, 0x29, 0x2D, 0x29]"
    by (simp add: trace_eval)
  have t1: "write_trace lcd0 0x83 registerSelectLow @ chars_trace lcd0 [0x41, 0x42]
      = [0x88, 0x8C, 0x88, 0x38, 0x3C, 0x38, 0x49, 0x4D, 0x49, 0x19, 0x1D, 0x19,
          0x49, 0x4D, 0x49, 0x29, 0x2D, 0x29]"
    by (simp add: trace_eval)
  have "DisplayString lcd0 [0x41, 0x42] 2 3 =
     (None, lcd0\<lparr>I2C := fresh_bus\<lparr>log :=
         [0xC8, 0xCC, 0xC8, 0x38, 0x3C, 0x38, 0x49, 0x4D, 0x49, 0x19, 0x1D, 0x19,
          0x49, 0x4D, 0x49, 0x29, 0x2D, 0x29]\<rparr>\<rparr>)"
    using DisplayString_line_table [of lcd0, THEN conjunct1] by (simp add: t2)
  moreover have "DisplayString lcd0 [0x41, 0x42] 1 3 =
     (None, lcd0\<lparr>I2C := fresh_bus\<lparr>log :=
         [0x88, 0x8C, 0x88, 0x38, 0x3C, 0x38, 0x49, 0x4D, 0x49, 0x19, 0x1D, 0x19,
          0x49, 0x4D, 0x49, 0x29, 0x2D, 0x29]\<rparr>\<rparr>)"
    using DisplayString_line_table [of lcd0, THEN conjunct2, rule_format, of 1 "[0x41, 0x42]" 3]
    by (simp add: t1)
  ultimately show ?thesis by simp
qed

end
